theory Spec2Isabelle
  imports Complex_Main
begin

section \<open>Python values as the adapter sees them\<close>

text \<open>
  A Python \<open>str\<close> is a sequence of Unicode code points: \<open>len\<close> counts code points and
  \<open>s[:500]\<close> keeps the first 500 of them. A string is therefore a list of code points
  (natural numbers); \<open>py\<close> embeds an ASCII literal.
\<close>

type_synonym pystr = "nat list"

definition py :: "string \<Rightarrow> pystr" where
  "py s = map of_char s"

text \<open>The two non-ASCII literals of \<open>gemini_engine.py\<close>, by code point.\<close>

definition unknown_file :: pystr where
  \<comment> \<open>the four-character placeholder file name of \<open>_extract_sources\<close>\<close>
  "unknown_file = [26410, 30693, 25991, 20214]"

definition unknown :: pystr where
  \<comment> \<open>the two-character default of \<open>created_time\<close> and \<open>store_resource_name\<close>\<close>
  "unknown = [26410, 30693]"

text \<open>
  \<open>hasattr(obj, 'a')\<close> is a test of its own, separate from the value of the
  attribute: an attribute is absent, or present with a value (which may be \<open>None\<close>,
  modelled by an option type where the provider's types allow it).
\<close>

datatype 'a attr = Absent | Attr 'a

text \<open>
  Values that pass through the JSON pointer file and through the untyped fields of the
  engine. \<open>JNull\<close> is Python's \<open>None\<close>; a \<open>dict\<close> is an association list with
  \<open>map_of\<close> as lookup.
\<close>

datatype json =
    JNull
  | JBool bool
  | JInt int
  | JFloat real
  | JStr pystr
  | JList "json list"
  | JObj "(pystr \<times> json) list"

fun truthy :: "json \<Rightarrow> bool" where
  "truthy JNull = False"
| "truthy (JBool b) = b"
| "truthy (JInt n) = (n \<noteq> 0)"
| "truthy (JFloat x) = (x \<noteq> 0)"
| "truthy (JStr s) = (s \<noteq> [])"
| "truthy (JList xs) = (xs \<noteq> [])"
| "truthy (JObj kvs) = (kvs \<noteq> [])"

definition dict_get :: "('k \<times> 'v) list \<Rightarrow> 'k \<Rightarrow> 'v \<Rightarrow> 'v" where
  \<comment> \<open>\<open>d.get(k, default)\<close>\<close>
  "dict_get d k dflt = (case map_of d k of None \<Rightarrow> dflt | Some v \<Rightarrow> v)"

datatype runtime_msg = NotInitialized | StoreNotBuilt

datatype py_error =
    ValueError
  | RuntimeError runtime_msg
  | TypeError
  | AttributeError
  | OverflowError
  | OSError
  | PermissionError
  | JSONDecodeError
  | APIError

subsection \<open>Floating point\<close>

text \<open>
  Python's \<open>float\<close> values are taken as the real numbers they denote, and every float
  operation as the exact operation followed by the rounding \<open>rnd\<close> of the float format,
  which is a parameter of the model. Infinities and NaN are outside the model. Literals
  that binary floating point holds exactly (\<open>1.5\<close>, \<open>1.0\<close>, \<open>1_000_000\<close>,
  \<open>3600\<close>, \<open>0\<close>) are written as they are; the others go through \<open>float_lit\<close>.
\<close>

type_synonym rounding = "real \<Rightarrow> real"

definition float_lit :: "rounding \<Rightarrow> real \<Rightarrow> real" where
  "float_lit rnd x = rnd x"

definition float_of_len :: "rounding \<Rightarrow> nat \<Rightarrow> real" where
  \<comment> \<open>the \<open>int\<close> operand of a mixed \<open>int * float\<close>; a length never overflows\<close>
  "float_of_len rnd n = rnd (real n)"

definition fadd :: "rounding \<Rightarrow> real \<Rightarrow> real \<Rightarrow> real" where
  "fadd rnd a b = rnd (a + b)"

definition fsub :: "rounding \<Rightarrow> real \<Rightarrow> real \<Rightarrow> real" where
  "fsub rnd a b = rnd (a - b)"

definition fmul :: "rounding \<Rightarrow> real \<Rightarrow> real \<Rightarrow> real" where
  "fmul rnd a b = rnd (a * b)"

definition fdiv :: "rounding \<Rightarrow> real \<Rightarrow> real \<Rightarrow> real" where
  \<comment> \<open>only ever applied to the non-zero constant divisors of the source\<close>
  "fdiv rnd a b = rnd (a / b)"

definition rounds_to_nearest :: "real set \<Rightarrow> rounding \<Rightarrow> bool" where
  \<comment> \<open>\<open>rnd\<close> sends every real to a value of the format \<open>F\<close> that is as near as any
      (ties broken in any fixed way), as Python's floats round\<close>
  "rounds_to_nearest F rnd = (\<forall>x. rnd x \<in> F \<and> (\<forall>f\<in>F. \<bar>x - rnd x\<bar> \<le> \<bar>x - f\<bar>))"

definition float_of_int :: "rounding \<Rightarrow> int \<Rightarrow> py_error + real" where
  \<comment> \<open>an \<open>int\<close> too large for a binary64 float raises \<open>OverflowError\<close>\<close>
  "float_of_int rnd n =
     (if \<bar>n\<bar> < 2 ^ 1024 - 2 ^ 970 then Inr (rnd (of_int n)) else Inl OverflowError)"

section \<open>Data model (\<open>base.py\<close>)\<close>

record source =
  filename :: pystr
  snippet :: pystr
  score :: real
  src_index :: nat      \<comment> \<open>\<open>metadata['index']\<close>; \<open>metadata['type']\<close> is always \<open>'file_search'\<close>\<close>

record rag_response =
  answer :: pystr
  sources :: "source list"
  confidence :: real
  latency :: real
  cost_estimate :: real
  engine_name :: pystr

text \<open>
  The engine configuration is a mapping read with \<open>.get(key, default)\<close>; a key that
  is missing is \<open>None\<close> here and the default is applied where the source applies it.
\<close>

record generation_config =
  gen_system_instruction :: "pystr option"
  gen_temperature :: "real option"
  gen_max_output_tokens :: "int option"

record config =
  cfg_api_key_env :: "pystr option"
  cfg_model :: "pystr option"
  cfg_pricing :: "(pystr \<rightharpoonup> real) option"
  cfg_generation :: "generation_config option"

text \<open>
  The fields of \<open>GeminiEngine\<close> that its methods read or write. \<open>store_resource_name\<close>
  is untyped in the source: it holds \<open>None\<close>, the name the provider returned, or
  whatever the pointer file held under that key.
\<close>

record engine =
  engine_config :: config
  initialized :: bool
  model_name :: pystr
  store_resource_name :: json
  pricing :: "pystr \<rightharpoonup> real"

definition init_engine :: "(pystr \<Rightarrow> pystr option) \<Rightarrow> config \<Rightarrow> py_error + engine" where
  \<comment> \<open>\<open>GeminiEngine.__init__\<close> after \<open>RAGEngine.__init__\<close>; the first argument is \<open>os.getenv\<close>\<close>
  "init_engine getenv cfg =
     (let api_key_env = (case cfg_api_key_env cfg of
                           None \<Rightarrow> py ''GEMINI_API_KEY'' | Some v \<Rightarrow> v);
          api_key = getenv api_key_env
      in if api_key = None \<or> api_key = Some [] then Inl ValueError
         else Inr \<lparr> engine_config = cfg,
                    initialized = False,
                    model_name = (case cfg_model cfg of
                                    None \<Rightarrow> py ''gemini-2.0-flash-001'' | Some m \<Rightarrow> m),
                    store_resource_name = JNull,
                    pricing = (case cfg_pricing cfg of None \<Rightarrow> Map.empty | Some p \<Rightarrow> p) \<rparr>)"

section \<open>Cost estimate\<close>

definition estimate_cost :: "rounding \<Rightarrow> (pystr \<rightharpoonup> real) \<Rightarrow> pystr \<Rightarrow> pystr \<Rightarrow> real" where
  "estimate_cost rnd prices input_text output_text =
     (let input_tokens = fmul rnd (float_of_len rnd (length input_text)) 1.5;
          output_tokens = fmul rnd (float_of_len rnd (length output_text)) 1.5;
          input_price = (case prices (py ''input_price'') of
                           None \<Rightarrow> float_lit rnd 0.075 | Some p \<Rightarrow> p);
          output_price = (case prices (py ''output_price'') of
                           None \<Rightarrow> float_lit rnd 0.30 | Some p \<Rightarrow> p);
          cost = fadd rnd
                   (fmul rnd (fdiv rnd input_tokens 1000000) input_price)
                   (fmul rnd (fdiv rnd output_tokens 1000000) output_price)
      in cost)"

section \<open>The provider's reply and citation extraction\<close>

text \<open>
  The reply is inspected by attribute probing. Each attribute the source tests with
  \<open>hasattr\<close> is an \<open>attr\<close>; the ones that the provider's types declare optional may
  hold \<open>None\<close>. A score, where a chunk has one, is passed to \<open>float\<close>, and is known
  here by what \<open>float\<close> makes of it: the number it returns, or the exception it
  raises (\<open>TypeError\<close> for \<open>None\<close>, \<open>ValueError\<close> for a text that is no number).
  \<open>resp_str\<close> is \<open>str(response)\<close>.
\<close>

datatype score_value = Converts real | Raises py_error

definition py_float :: "score_value \<Rightarrow> py_error + real" where
  \<comment> \<open>\<open>float(v)\<close>\<close>
  "py_float v = (case v of Converts x \<Rightarrow> Inr x | Raises err \<Rightarrow> Inl err)"

record retrieved_context =
  rc_title :: "pystr option attr"
  rc_uri :: "pystr option attr"
  rc_text :: "pystr option attr"

record grounding_chunk =
  chunk_retrieved_context :: "retrieved_context option attr"
  chunk_score :: "score_value attr"

record grounding_metadata =
  grounding_chunks :: "grounding_chunk list option attr"

record candidate =
  cand_grounding_metadata :: "grounding_metadata option attr"

record response =
  candidates :: "candidate list option attr"
  resp_text :: "pystr option attr"
  resp_str :: pystr

datatype log_event =
    LogUploadFailed pystr py_error
  | LogUploadedCount nat
  | LogImportFailed pystr py_error
  | LogImportedCount nat
  | LogBuildDone nat nat
  | LogBuildFailed py_error
  | LogStoreInfoSaved json nat
  | LogPointerNotFound
  | LogNameMissing
  | LogPointerLoaded json json
  | LogPointerLoadFailed py_error
  | LogExtractFailed py_error
  | LogNoSources
  | LogQueryFailed py_error
  | LogInfoReadFailed py_error

fun split_on :: "'a \<Rightarrow> 'a list \<Rightarrow> 'a list list" where
  \<comment> \<open>\<open>s.split(sep)\<close> for a one-character separator\<close>
  "split_on sep [] = [[]]"
| "split_on sep (c # cs) =
     (if c = sep then [] # split_on sep cs
      else (case split_on sep cs of
              [] \<Rightarrow> [[c]]
            | seg # segs \<Rightarrow> (c # seg) # segs))"

definition nonempty_str :: "pystr option attr \<Rightarrow> pystr option" where
  \<comment> \<open>\<open>hasattr(o, 'a') and o.a\<close> for a string attribute: the string when it is there and
      not empty\<close>
  "nonempty_str a = (case a of
       Absent \<Rightarrow> None
     | Attr None \<Rightarrow> None
     | Attr (Some s) \<Rightarrow> (if s = [] then None else Some s))"

definition context_attr :: "retrieved_context option \<Rightarrow> (retrieved_context \<Rightarrow> pystr option attr)
    \<Rightarrow> pystr option" where
  \<comment> \<open>the same test on \<open>context\<close>, which may itself be \<open>None\<close> (no attribute at all)\<close>
  "context_attr context field = (case context of
       None \<Rightarrow> None
     | Some c \<Rightarrow> nonempty_str (field c))"

definition make_source :: "nat \<Rightarrow> grounding_chunk \<Rightarrow> retrieved_context option
    \<Rightarrow> py_error + source" where
  \<comment> \<open>the body of the loop of \<open>_extract_sources\<close> for a chunk with a \<open>retrieved_context\<close>
      attribute: the source to append, or the exception that \<open>float(chunk.score)\<close>
      raises\<close>
  "make_source i chunk context =
     (let fname = (case context_attr context rc_title of
                        Some t \<Rightarrow> t
                      | None \<Rightarrow> (case context_attr context rc_uri of
                                   Some u \<Rightarrow> last (split_on (of_char CHR ''/'') u)
                                 | None \<Rightarrow> unknown_file));
          snip = (case context_attr context rc_text of
                       Some t \<Rightarrow> take 500 t
                     | None \<Rightarrow> []);
          sc = (case chunk_score chunk of
                     Absent \<Rightarrow> Inr 1.0
                   | Attr v \<Rightarrow> py_float v)
      in (case sc of
            Inl err \<Rightarrow> Inl err
          | Inr x \<Rightarrow> Inr \<lparr> filename = fname, snippet = snip, score = x, src_index = i \<rparr>))"

fun chunk_loop :: "nat \<Rightarrow> grounding_chunk list \<Rightarrow> source list
    \<Rightarrow> source list \<times> py_error option" where
  \<comment> \<open>\<open>for i, chunk in enumerate(metadata.grounding_chunks)\<close>, appending to \<open>sources\<close>;
      an exception ends the loop with the sources appended so far\<close>
  "chunk_loop i [] srcs = (srcs, None)"
| "chunk_loop i (chunk # rest) srcs =
     (case chunk_retrieved_context chunk of
        Absent \<Rightarrow> chunk_loop (Suc i) rest srcs
      | Attr context \<Rightarrow>
          (case make_source i chunk context of
             Inl err \<Rightarrow> (srcs, Some err)
           | Inr src \<Rightarrow> chunk_loop (Suc i) rest (srcs @ [src])))"

definition extract_try :: "response \<Rightarrow> source list \<times> py_error option" where
  \<comment> \<open>the \<open>try\<close> block: the sources gathered, and the exception that ended it, if any.
      \<open>len(None)\<close> raises \<open>TypeError\<close>. The loop over \<open>grounding_supports\<close> has an
      empty body and is left out; it is not reached when the loop over the chunks
      raises.\<close>
  "extract_try response =
     (case candidates response of
        Absent \<Rightarrow> ([], None)
      | Attr None \<Rightarrow> ([], Some TypeError)
      | Attr (Some []) \<Rightarrow> ([], None)
      | Attr (Some (candidate # _)) \<Rightarrow>
          (case cand_grounding_metadata candidate of
             Attr (Some metadata) \<Rightarrow>
               (case grounding_chunks metadata of
                  Attr (Some chunks) \<Rightarrow>
                    (if chunks \<noteq> [] then chunk_loop 0 chunks [] else ([], None))
                | _ \<Rightarrow> ([], None))
           | _ \<Rightarrow> ([], None)))"

definition extract_sources :: "response \<Rightarrow> source list \<times> log_event list" where
  \<comment> \<open>\<open>_extract_sources\<close>: the sources returned and what was logged\<close>
  "extract_sources response =
     (let (srcs, err) = extract_try response;
          log_err = (case err of None \<Rightarrow> [] | Some e \<Rightarrow> [LogExtractFailed e]);
          log_empty = (if srcs = [] then [LogNoSources] else [])
      in (srcs, log_err @ log_empty))"

section \<open>The world outside the adapter\<close>

text \<open>
  The pointer file \<open>data/gemini_corpus/store_info.json\<close> is the only file the adapter
  writes and reads back. It is absent; or its path cannot be examined and
  \<open>Path.exists()\<close> raises (\<open>PermissionError\<close> when a directory on the way may not be
  searched); or it exists and reading it fails (\<open>open\<close> or \<open>json.load\<close> raises); or it
  holds a JSON document. \<open>json.dump\<close> followed by \<open>json.load\<close> is taken to return the
  document that was written.
\<close>

datatype pointer_file = NoFile | NoAccess py_error | BadFile py_error | JsonFile json

record file_record =
  display_name :: pystr
  file_name :: json

record request =
  req_model :: pystr
  req_contents :: pystr
  req_store_names :: "json list"
  req_temperature :: real
  req_max_output_tokens :: int
  req_system_instruction :: pystr

datatype provider_call =
    CallCreateStore
  | CallUpload pystr
  | CallImport json json
  | CallGenerate request

text \<open>
  What the adapter cannot decide: whether a source file opens, what each provider
  endpoint answers (an exception, or its result; uploads and imports by their
  position in the loop, as \<open>enumerate(..., 1)\<close> counts them), and whether the pointer
  file can be written.
\<close>

record env =
  readable :: "pystr \<Rightarrow> bool"
  create_store :: "py_error + json"
  upload_file :: "nat \<Rightarrow> pystr \<Rightarrow> py_error + json"
  import_file :: "nat \<Rightarrow> json \<Rightarrow> json \<Rightarrow> py_error + unit"
  generate_content :: "request \<Rightarrow> py_error + response"
  writable :: bool

record clock =
  clk_time :: real      \<comment> \<open>\<open>time.time()\<close>\<close>
  clk_stamp :: pystr    \<comment> \<open>\<open>time.strftime('%Y-%m-%d %H:%M:%S')\<close>\<close>

text \<open>
  The effects: the pointer file, the calls made to the provider, in order, and the
  warnings, errors and counts that were logged (progress messages and the pacing
  sleeps are left out).
\<close>

record world =
  disk :: pointer_file
  calls :: "provider_call list"
  logs :: "log_event list"

definition log_add :: "world \<Rightarrow> log_event \<Rightarrow> world" where
  "log_add w ev = w\<lparr>logs := logs w @ [ev]\<rparr>"

definition call_add :: "world \<Rightarrow> provider_call \<Rightarrow> world" where
  "call_add w c = w\<lparr>calls := calls w @ [c]\<rparr>"

section \<open>The pointer file\<close>

definition file_record_json :: "file_record \<Rightarrow> json" where
  "file_record_json f =
     JObj [(py ''display_name'', JStr (display_name f)), (py ''file_name'', file_name f)]"

definition info_data :: "clock \<Rightarrow> json \<Rightarrow> file_record list \<Rightarrow> json" where
  "info_data clk name uploaded_files =
     JObj [(py ''store_resource_name'', name),
           (py ''created_at'', JFloat (clk_time clk)),
           (py ''created_time'', JStr (clk_stamp clk)),
           (py ''files'', JList (map file_record_json uploaded_files)),
           (py ''total_files'', JInt (int (length uploaded_files)))]"

definition save_store_info :: "env \<Rightarrow> clock \<Rightarrow> json \<Rightarrow> file_record list \<Rightarrow> world
    \<Rightarrow> (py_error + unit) \<times> world" where
  \<comment> \<open>\<open>_save_store_info\<close>; \<open>mkdir\<close> or \<open>open(..., 'w')\<close> raising leaves the file as it was\<close>
  "save_store_info e clk name uploaded_files w =
     (if \<not> writable e then (Inl OSError, w)
      else (Inr (),
            log_add (w\<lparr>disk := JsonFile (info_data clk name uploaded_files)\<rparr>)
                    (LogStoreInfoSaved name (length uploaded_files))))"

definition load_corpus_info :: "engine \<Rightarrow> world \<Rightarrow> (py_error + bool) \<times> engine \<times> world" where
  \<comment> \<open>\<open>load_corpus_info\<close>. \<open>info_file.exists()\<close> stands before the \<open>try\<close>: what it raises
      leaves the method; what \<open>open\<close>, \<open>json.load\<close> and \<open>.get\<close> raise is caught.\<close>
  "load_corpus_info eng w =
     (case disk w of
        NoAccess e \<Rightarrow> (Inl e, eng, w)
      | NoFile \<Rightarrow> (Inr False, eng, log_add w LogPointerNotFound)
      | BadFile e \<Rightarrow> (Inr False, eng, log_add w (LogPointerLoadFailed e))
      | JsonFile doc \<Rightarrow>
          (case doc of
             JObj d \<Rightarrow>
               (let eng1 = eng\<lparr>store_resource_name := dict_get d (py ''store_resource_name'') JNull\<rparr>
                in if \<not> truthy (store_resource_name eng1)
                   then (Inr False, eng1, log_add w LogNameMissing)
                   else (Inr True, eng1\<lparr>initialized := True\<rparr>,
                         log_add w (LogPointerLoaded
                           (dict_get d (py ''total_files'') (JInt 0))
                           (dict_get d (py ''created_time'') (JStr unknown)))))
           | _ \<Rightarrow> (Inr False, eng, log_add w (LogPointerLoadFailed AttributeError))))"

datatype info_msg = IndexMissing | ReadFailed py_error

record index_info =
  info_exists :: bool
  info_expired :: bool
  info_message :: "info_msg option"
  info_created_time :: "json option"
  info_age_hours :: "real option"
  info_total_files :: "json option"
  info_store_resource_name :: "json option"

definition not_found :: "info_msg \<Rightarrow> index_info" where
  \<comment> \<open>the dict \<open>{'exists': False, 'expired': False, 'message': ...}\<close>\<close>
  "not_found m =
     \<lparr> info_exists = False, info_expired = False, info_message = Some m,
       info_created_time = None, info_age_hours = None, info_total_files = None,
       info_store_resource_name = None \<rparr>"

definition float_minus :: "rounding \<Rightarrow> real \<Rightarrow> json \<Rightarrow> py_error + real" where
  \<comment> \<open>\<open>x - v\<close> for a float \<open>x\<close> and whatever \<open>v\<close> the document held: numbers and
      booleans subtract, anything else raises \<open>TypeError\<close>\<close>
  "float_minus rnd x v = (case v of
       JFloat y \<Rightarrow> Inr (fsub rnd x y)
     | JInt n \<Rightarrow> (case float_of_int rnd n of
                    Inl e \<Rightarrow> Inl e
                  | Inr y \<Rightarrow> Inr (fsub rnd x y))
     | JBool b \<Rightarrow> Inr (fsub rnd x (if b then 1 else 0))
     | _ \<Rightarrow> Inl TypeError)"

definition index_info_try :: "rounding \<Rightarrow> real \<Rightarrow> json \<Rightarrow> py_error + index_info" where
  \<comment> \<open>the \<open>try\<close> block of \<open>get_index_info\<close> once the file has been parsed; \<open>.get\<close> on a
      document that is not an object raises \<open>AttributeError\<close>\<close>
  "index_info_try rnd current_time doc = (case doc of
       JObj d \<Rightarrow>
         (case float_minus rnd current_time (dict_get d (py ''created_at'') (JInt 0)) of
            Inl e \<Rightarrow> Inl e
          | Inr diff \<Rightarrow>
              Inr \<lparr> info_exists = True, info_expired = False, info_message = None,
                    info_created_time = Some (dict_get d (py ''created_time'') (JStr unknown)),
                    info_age_hours = Some (fdiv rnd diff 3600),
                    info_total_files = Some (dict_get d (py ''total_files'') (JInt 0)),
                    info_store_resource_name =
                      Some (dict_get d (py ''store_resource_name'') (JStr unknown)) \<rparr>)
     | _ \<Rightarrow> Inl AttributeError)"

definition get_index_info :: "rounding \<Rightarrow> real \<Rightarrow> world \<Rightarrow> (py_error + index_info) \<times> world" where
  \<comment> \<open>\<open>get_index_info\<close>; here too \<open>info_file.exists()\<close> stands before the \<open>try\<close>\<close>
  "get_index_info rnd current_time w =
     (case disk w of
        NoAccess e \<Rightarrow> (Inl e, w)
      | NoFile \<Rightarrow> (Inr (not_found IndexMissing), w)
      | BadFile e \<Rightarrow> (Inr (not_found (ReadFailed e)), log_add w (LogInfoReadFailed e))
      | JsonFile doc \<Rightarrow>
          (case index_info_try rnd current_time doc of
             Inl e \<Rightarrow> (Inr (not_found (ReadFailed e)), log_add w (LogInfoReadFailed e))
           | Inr info \<Rightarrow> (Inr info, w)))"

section \<open>Ingestion\<close>

definition glob_txt :: "pystr list \<Rightarrow> pystr list" where
  \<comment> \<open>\<open>data_path.glob("*.txt")\<close> over the names in the directory, in listing order\<close>
  "glob_txt entries =
     filter (\<lambda>n. 4 \<le> length n \<and> drop (length n - 4) n = py ''.txt'') entries"

fun upload_loop :: "env \<Rightarrow> nat \<Rightarrow> pystr list \<Rightarrow> file_record list \<Rightarrow> world
    \<Rightarrow> file_record list \<times> world" where
  \<comment> \<open>step 2a: \<open>for i, file_path in enumerate(txt_files, 1)\<close>; a failure to open or to
      upload is logged and the file is skipped\<close>
  "upload_loop e i [] uploaded_files w = (uploaded_files, w)"
| "upload_loop e i (file_path # rest) uploaded_files w =
     (if \<not> readable e file_path
      then upload_loop e (Suc i) rest uploaded_files
             (log_add w (LogUploadFailed file_path OSError))
      else (case upload_file e i file_path of
              Inl err \<Rightarrow>
                upload_loop e (Suc i) rest uploaded_files
                  (log_add (call_add w (CallUpload file_path)) (LogUploadFailed file_path err))
            | Inr name \<Rightarrow>
                upload_loop e (Suc i) rest
                  (uploaded_files @ [\<lparr> display_name = file_path, file_name = name \<rparr>])
                  (call_add w (CallUpload file_path))))"

fun import_loop :: "env \<Rightarrow> json \<Rightarrow> nat \<Rightarrow> file_record list \<Rightarrow> nat \<Rightarrow> world \<Rightarrow> nat \<times> world" where
  \<comment> \<open>step 2b: \<open>for i, file_info in enumerate(uploaded_files, 1)\<close>, counting the imports
      that did not raise\<close>
  "import_loop e store i [] import_count w = (import_count, w)"
| "import_loop e store i (file_info # rest) import_count w =
     (case import_file e i store (file_name file_info) of
        Inl err \<Rightarrow>
          import_loop e store (Suc i) rest import_count
            (log_add (call_add w (CallImport store (file_name file_info)))
                     (LogImportFailed (display_name file_info) err))
      | Inr _ \<Rightarrow>
          import_loop e store (Suc i) rest (Suc import_count)
            (call_add w (CallImport store (file_name file_info))))"

definition build_index :: "env \<Rightarrow> clock \<Rightarrow> pystr list \<Rightarrow> engine \<Rightarrow> world
    \<Rightarrow> (py_error + unit) \<times> engine \<times> world" where
  \<comment> \<open>\<open>build_index\<close> on a directory with the given entries. Every exception that leaves
      the outer \<open>try\<close> is logged and raised again; the fields assigned before it stay
      assigned.\<close>
  "build_index e clk entries eng w =
     (case create_store e of
        Inl err \<Rightarrow> (Inl err, eng, log_add (call_add w CallCreateStore) (LogBuildFailed err))
      | Inr name \<Rightarrow>
          (let eng1 = eng\<lparr>store_resource_name := name\<rparr>;
               w1 = call_add w CallCreateStore;
               txt_files = glob_txt entries;
               (uploaded_files, w2) = upload_loop e 1 txt_files [] w1;
               uploaded_count = length uploaded_files;
               w3 = log_add w2 (LogUploadedCount uploaded_count);
               (import_count, w4) =
                  import_loop e (store_resource_name eng1) 1 uploaded_files 0 w3;
               w5 = log_add w4 (LogImportedCount import_count);
               w6 = log_add w5 (LogBuildDone uploaded_count (length txt_files))
           in (case save_store_info e clk (store_resource_name eng1) uploaded_files w6 of
                 (Inl err, w7) \<Rightarrow> (Inl err, eng1, log_add w7 (LogBuildFailed err))
               | (Inr _, w7) \<Rightarrow> (Inr (), eng1\<lparr>initialized := True\<rparr>, w7))))"

section \<open>Query\<close>

definition make_request :: "rounding \<Rightarrow> engine \<Rightarrow> pystr \<Rightarrow> request" where
  \<comment> \<open>the arguments of \<open>generate_content\<close>, with the defaults of \<open>query\<close>\<close>
  "make_request rnd eng question =
     (let generation_config = (case cfg_generation (engine_config eng) of
                                 None \<Rightarrow> \<lparr> gen_system_instruction = None,
                                          gen_temperature = None,
                                          gen_max_output_tokens = None \<rparr>
                               | Some g \<Rightarrow> g)
      in \<lparr> req_model = model_name eng,
           req_contents = question,
           req_store_names = [store_resource_name eng],
           req_temperature = (case gen_temperature generation_config of
                                None \<Rightarrow> float_lit rnd 0.1 | Some t \<Rightarrow> t),
           req_max_output_tokens = (case gen_max_output_tokens generation_config of
                                      None \<Rightarrow> 2000 | Some n \<Rightarrow> n),
           req_system_instruction = (case gen_system_instruction generation_config of
                                       None \<Rightarrow> [] | Some s \<Rightarrow> s) \<rparr>)"

definition answer_of :: "response \<Rightarrow> pystr option" where
  \<comment> \<open>\<open>response.text if hasattr(response, 'text') else str(response)\<close>; \<open>None\<close> when the
      attribute is there and holds \<open>None\<close>\<close>
  "answer_of response = (case resp_text response of
       Absent \<Rightarrow> Some (resp_str response)
     | Attr t \<Rightarrow> t)"

definition query :: "rounding \<Rightarrow> env \<Rightarrow> real \<Rightarrow> real \<Rightarrow> pystr \<Rightarrow> engine \<Rightarrow> world
    \<Rightarrow> (py_error + rag_response) \<times> engine \<times> world" where
  \<comment> \<open>\<open>query\<close>; \<open>start_time\<close> and \<open>end_time\<close> are the two readings of \<open>time.time()\<close>.
      \<open>len(None)\<close> in \<open>_estimate_cost\<close> raises \<open>TypeError\<close>. The engine is returned as
      the method leaves it.\<close>
  "query rnd e start_time end_time question eng w =
     (if \<not> initialized eng then (Inl (RuntimeError NotInitialized), eng, w)
      else if \<not> truthy (store_resource_name eng)
      then (Inl (RuntimeError StoreNotBuilt), eng, w)
      else
        (let req = make_request rnd eng question;
             w1 = call_add w (CallGenerate req)
         in (case generate_content e req of
               Inl err \<Rightarrow> (Inl err, eng, log_add w1 (LogQueryFailed err))
             | Inr response \<Rightarrow>
                 (let (srcs, lg) = extract_sources response;
                      w2 = w1\<lparr>logs := logs w1 @ lg\<rparr>;
                      lat = fsub rnd end_time start_time
                  in (case answer_of response of
                        None \<Rightarrow> (Inl TypeError, eng, log_add w2 (LogQueryFailed TypeError))
                      | Some ans \<Rightarrow>
                          (Inr \<lparr> answer = ans,
                                 sources = srcs,
                                 confidence = float_lit rnd 0.85,
                                 latency = lat,
                                 cost_estimate = estimate_cost rnd (pricing eng) question ans,
                                 engine_name = py ''Gemini File Search'' \<rparr>,
                           eng, w2))))))"

section \<open>Runs of the adapter\<close>

text \<open>
  The state machine of the adapter: after construction, \<open>build_index\<close> and
  \<open>load_corpus_info\<close> are called in some order, and between two calls the pointer
  file may be replaced from outside; a \<open>query\<close> is not a step of these runs.
  \<open>ever_succeeded\<close> tells whether some build of the run completed or some load
  returned true.
\<close>

datatype adapter_op =
    Build env clock "pystr list"
  | Load
  | Rewrite pointer_file

fun step :: "adapter_op \<Rightarrow> engine \<times> world \<Rightarrow> engine \<times> world" where
  "step (Build e clk entries) (eng, w) = snd (build_index e clk entries eng w)"
| "step Load (eng, w) = snd (load_corpus_info eng w)"
| "step (Rewrite f) (eng, w) = (eng, w\<lparr>disk := f\<rparr>)"

fun succeeded :: "adapter_op \<Rightarrow> engine \<times> world \<Rightarrow> bool" where
  "succeeded (Build e clk entries) (eng, w) = (fst (build_index e clk entries eng w) = Inr ())"
| "succeeded Load (eng, w) = (fst (load_corpus_info eng w) = Inr True)"
| "succeeded (Rewrite f) (eng, w) = False"

fun run :: "adapter_op list \<Rightarrow> engine \<times> world \<Rightarrow> engine \<times> world" where
  "run [] s = s"
| "run (a # ops) s = run ops (step a s)"

fun ever_succeeded :: "adapter_op list \<Rightarrow> engine \<times> world \<Rightarrow> bool" where
  "ever_succeeded [] s = False"
| "ever_succeeded (a # ops) s = (succeeded a s \<or> ever_succeeded ops (step a s))"

section \<open>The properties, in the specification's words\<close>

subsection \<open>Cost estimate\<close>

definition configured_price :: "(pystr \<rightharpoonup> real) \<Rightarrow> pystr \<Rightarrow> real \<Rightarrow> real" where
  \<comment> \<open>the configured per-million-token price, or the default when it is not configured\<close>
  "configured_price prices key dflt = (case prices key of None \<Rightarrow> dflt | Some p \<Rightarrow> p)"

definition spec_cost :: "real \<Rightarrow> real \<Rightarrow> real \<Rightarrow> real \<Rightarrow> real" where
  \<comment> \<open>the formula of the specification, in exact arithmetic\<close>
  "spec_cost len_in len_out input_price output_price =
     (len_in * 1.5 / 1000000) * input_price + (len_out * 1.5 / 1000000) * output_price"

definition grid :: rounding where
  \<comment> \<open>a rounding to try the model on: to the nearest multiple of \<open>1/1024\<close>\<close>
  "grid x = real_of_int (round (x * 1024)) / 1024"

subsection \<open>Citations\<close>

definition response_chunks :: "response \<Rightarrow> grounding_chunk list" where
  \<comment> \<open>the grounding chunks of a reply: those of the grounding metadata of its first
      candidate, none when any of these is missing\<close>
  "response_chunks r = (case candidates r of
       Attr (Some (c # _)) \<Rightarrow>
         (case cand_grounding_metadata c of
            Attr (Some m) \<Rightarrow>
              (case grounding_chunks m of Attr (Some cs) \<Rightarrow> cs | _ \<Rightarrow> [])
          | _ \<Rightarrow> [])
     | _ \<Rightarrow> [])"

definition carries_payload :: "grounding_chunk \<Rightarrow> bool" where
  \<comment> \<open>the chunk carries a retrieved-context payload\<close>
  "carries_payload c = (case chunk_retrieved_context c of
       Attr (Some ctx) \<Rightarrow> True
     | _ \<Rightarrow> False)"

definition has_context_attribute :: "grounding_chunk \<Rightarrow> bool" where
  \<comment> \<open>the chunk has the attribute \<open>retrieved_context\<close>, with a payload or with \<open>None\<close>\<close>
  "has_context_attribute c = (chunk_retrieved_context c \<noteq> Absent)"

definition score_converts :: "grounding_chunk \<Rightarrow> bool" where
  \<comment> \<open>the chunk has no score, or one that \<open>float\<close> accepts\<close>
  "score_converts c = (case chunk_score c of
       Attr (Raises err) \<Rightarrow> False
     | _ \<Rightarrow> True)"

definition no_context :: retrieved_context where
  "no_context = \<lparr> rc_title = Absent, rc_uri = Absent, rc_text = Absent \<rparr>"

definition payload :: "grounding_chunk \<Rightarrow> retrieved_context" where
  \<comment> \<open>the retrieved context of a chunk; one whose attribute holds \<open>None\<close> has no title,
      URI or text\<close>
  "payload c = (case chunk_retrieved_context c of
       Attr (Some ctx) \<Rightarrow> ctx
     | _ \<Rightarrow> no_context)"

definition present :: "pystr option attr \<Rightarrow> bool" where
  "present a = (case a of Attr (Some s) \<Rightarrow> s \<noteq> [] | _ \<Rightarrow> False)"

definition str_of :: "pystr option attr \<Rightarrow> pystr" where
  "str_of a = (case a of Attr (Some s) \<Rightarrow> s | _ \<Rightarrow> [])"

definition last_segment :: "pystr \<Rightarrow> pystr" where
  \<comment> \<open>what follows the last \<open>/\<close>, the whole string when there is none\<close>
  "last_segment u = rev (takeWhile (\<lambda>c. c \<noteq> of_char CHR ''/'') (rev u))"

definition citation_filename :: "retrieved_context \<Rightarrow> pystr" where
  "citation_filename ctx =
     (if present (rc_title ctx) then str_of (rc_title ctx)
      else if present (rc_uri ctx) then last_segment (str_of (rc_uri ctx))
      else unknown_file)"

definition citation_snippet :: "retrieved_context \<Rightarrow> pystr" where
  "citation_snippet ctx =
     (if present (rc_text ctx) then take 500 (str_of (rc_text ctx)) else [])"

definition citation_score :: "grounding_chunk \<Rightarrow> real" where
  "citation_score c = (case chunk_score c of Attr (Converts s) \<Rightarrow> s | _ \<Rightarrow> 1.0)"

definition citation :: "nat \<times> grounding_chunk \<Rightarrow> source" where
  "citation ic =
     \<lparr> filename = citation_filename (payload (snd ic)),
       snippet = citation_snippet (payload (snd ic)),
       score = citation_score (snd ic),
       src_index = fst ic \<rparr>"

definition claimed_citations :: "response \<Rightarrow> source list" where
  \<comment> \<open>one citation for each chunk that carries a retrieved-context payload, in the order
      of the chunks\<close>
  "claimed_citations r =
     map citation (filter (\<lambda>ic. carries_payload (snd ic)) (enumerate 0 (response_chunks r)))"

definition citations :: "response \<Rightarrow> source list" where
  \<comment> \<open>one citation for each chunk that has the attribute, in the order of the chunks\<close>
  "citations r =
     map citation
       (filter (\<lambda>ic. has_context_attribute (snd ic)) (enumerate 0 (response_chunks r)))"

definition scores_convert :: "response \<Rightarrow> bool" where
  \<comment> \<open>no chunk that has the attribute has a score that \<open>float\<close> rejects\<close>
  "scores_convert r =
     list_all score_converts (filter has_context_attribute (response_chunks r))"

subsection \<open>Ingestion\<close>

fun succeeded_upload :: "env \<Rightarrow> nat \<Rightarrow> pystr list \<Rightarrow> file_record list" where
  \<comment> \<open>the files whose upload step succeeded, counted from position \<open>i\<close>\<close>
  "succeeded_upload e i [] = []"
| "succeeded_upload e i (p # ps) =
     (case (if readable e p then upload_file e i p else Inl OSError) of
        Inr name \<Rightarrow> \<lparr> display_name = p, file_name = name \<rparr> # succeeded_upload e (Suc i) ps
      | Inl _ \<Rightarrow> succeeded_upload e (Suc i) ps)"

fun succeeded_import :: "env \<Rightarrow> json \<Rightarrow> nat \<Rightarrow> file_record list \<Rightarrow> file_record list" where
  \<comment> \<open>of the uploaded files, those whose import step succeeded as well\<close>
  "succeeded_import e store i [] = []"
| "succeeded_import e store i (f # fs) =
     (case import_file e i store (file_name f) of
        Inr _ \<Rightarrow> f # succeeded_import e store (Suc i) fs
      | Inl _ \<Rightarrow> succeeded_import e store (Suc i) fs)"

definition succeeded_both :: "env \<Rightarrow> json \<Rightarrow> pystr list \<Rightarrow> file_record list" where
  "succeeded_both e store txt_files =
     succeeded_import e store 1 (succeeded_upload e 1 txt_files)"

definition persisted :: "world \<Rightarrow> pystr \<Rightarrow> json option" where
  \<comment> \<open>a field of the pointer document on disk\<close>
  "persisted w key = (case disk w of
       JsonFile (JObj d) \<Rightarrow> map_of d key
     | _ \<Rightarrow> None)"

definition persisted_files :: "world \<Rightarrow> json list option" where
  \<comment> \<open>the \<open>files\<close> list of the pointer document on disk\<close>
  "persisted_files w = (case persisted w (py ''files'') of
       Some (JList fs) \<Rightarrow> Some fs
     | _ \<Rightarrow> None)"

definition pointer_name :: "world \<Rightarrow> json" where
  \<comment> \<open>the \<open>store_resource_name\<close> the pointer file gives: \<open>None\<close> when the file is
      missing, cannot be examined or read, is not a JSON object, or has no such key\<close>
  "pointer_name w = (case persisted w (py ''store_resource_name'') of
       None \<Rightarrow> JNull
     | Some v \<Rightarrow> v)"

subsection \<open>The initialization invariant\<close>

definition adapter_inv :: "engine \<Rightarrow> bool" where
  \<comment> \<open>when the initialized flag is set, the store resource name is set and not empty\<close>
  "adapter_inv eng = (initialized eng \<longrightarrow> truthy (store_resource_name eng))"

section \<open>A concrete deployment\<close>

text \<open>
  An environment with the key set and the default configuration; a directory with two
  matching documents and one other file; a provider that uploads both documents and
  fails the second import; a reply citing one document, and one with no grounding.
\<close>

definition getenv0 :: "pystr \<Rightarrow> pystr option" where
  "getenv0 k = (if k = py ''GEMINI_API_KEY'' then Some (py ''secret'') else None)"

definition cfg0 :: config where
  "cfg0 = \<lparr> cfg_api_key_env = None, cfg_model = None, cfg_pricing = None,
            cfg_generation = None \<rparr>"

definition eng0 :: engine where
  "eng0 = \<lparr> engine_config = cfg0, initialized = False,
            model_name = py ''gemini-2.0-flash-001'', store_resource_name = JNull,
            pricing = Map.empty \<rparr>"

definition world0 :: world where
  "world0 = \<lparr> disk = NoFile, calls = [], logs = [] \<rparr>"

definition clk0 :: clock where
  "clk0 = \<lparr> clk_time = 1700000000, clk_stamp = py ''2023-11-14 22:13:20'' \<rparr>"

definition dir0 :: "pystr list" where
  "dir0 = [py ''a.txt'', py ''b.txt'', py ''notes.md'']"

definition chunk0 :: grounding_chunk where
  "chunk0 = \<lparr> chunk_retrieved_context =
                 Attr (Some \<lparr> rc_title = Attr (Some (py ''A.txt'')), rc_uri = Attr None,
                              rc_text = Attr (Some (py ''hello'')) \<rparr>),
               chunk_score = Absent \<rparr>"

definition reply0 :: response where
  "reply0 = \<lparr> candidates =
                 Attr (Some [\<lparr> cand_grounding_metadata =
                                Attr (Some \<lparr> grounding_chunks = Attr (Some [chunk0]) \<rparr>) \<rparr>]),
               resp_text = Attr (Some (py ''fined'')), resp_str = [] \<rparr>"

definition reply_of :: "grounding_chunk list \<Rightarrow> response" where
  \<comment> \<open>a reply with the given grounding chunks\<close>
  "reply_of chunks =
     \<lparr> candidates =
         Attr (Some [\<lparr> cand_grounding_metadata =
                        Attr (Some \<lparr> grounding_chunks = Attr (Some chunks) \<rparr>) \<rparr>]),
       resp_text = Attr (Some (py ''fined'')), resp_str = [] \<rparr>"

definition chunk_none :: grounding_chunk where
  \<comment> \<open>a chunk whose \<open>retrieved_context\<close> attribute holds \<open>None\<close>\<close>
  "chunk_none = \<lparr> chunk_retrieved_context = Attr None, chunk_score = Absent \<rparr>"

definition chunk_unscored :: grounding_chunk where
  \<comment> \<open>a chunk with a payload and a score that holds \<open>None\<close>\<close>
  "chunk_unscored =
     \<lparr> chunk_retrieved_context =
         Attr (Some \<lparr> rc_title = Attr (Some (py ''B.txt'')), rc_uri = Attr None,
                      rc_text = Attr (Some (py ''world'')) \<rparr>),
       chunk_score = Attr (Raises TypeError) \<rparr>"



definition store0 :: json where
  "store0 = JStr (py ''fileSearchStores/s1'')"

definition env0 :: env where
  "env0 = \<lparr> readable = (\<lambda>p. True),
            create_store = Inr store0,
            upload_file = (\<lambda>i p. Inr (JStr (py ''files/'' @ p))),
            import_file = (\<lambda>i store f. if i = 2 then Inl APIError else Inr ()),
            generate_content = (\<lambda>req. Inr reply0),
            writable = True \<rparr>"



definition eng1 :: engine where
  \<comment> \<open>the engine after a successful build or load against \<open>store0\<close>\<close>
  "eng1 = eng0\<lparr>store_resource_name := store0, initialized := True\<rparr>"

definition world_stale :: world where
  \<comment> \<open>a pointer document that has lost its \<open>store_resource_name\<close>\<close>
  "world_stale = world0\<lparr>disk := JsonFile (JObj [(py ''total_files'', JInt 2)])\<rparr>"

definition world_denied :: world where
  \<comment> \<open>the directory of the pointer file may not be searched\<close>
  "world_denied = world0\<lparr>disk := NoAccess PermissionError\<rparr>"

definition env_down :: env where
  \<comment> \<open>the provider refusing to create a store\<close>
  "env_down = env0\<lparr>create_store := Inl APIError\<rparr>"

definition files0 :: "file_record list" where
  "files0 = [\<lparr> display_name = py ''a.txt'', file_name = JStr (py ''files/a.txt'') \<rparr>,
             \<lparr> display_name = py ''b.txt'', file_name = JStr (py ''files/b.txt'') \<rparr>]"

definition world_saved :: world where
  \<comment> \<open>\<open>world0\<close> after the pointer for \<open>store0\<close> and \<open>files0\<close> has been written\<close>
  "world_saved = world0\<lparr>disk := JsonFile (info_data clk0 store0 files0),
                         logs := [LogStoreInfoSaved store0 2]\<rparr>"

definition env_noname :: env where
  \<comment> \<open>a provider whose new store comes back with an empty name\<close>
  "env_noname = env0\<lparr>create_store := Inr (JStr [])\<rparr>"

definition question0 :: pystr where
  "question0 = py ''which banks were fined''"

definition resp0 :: rag_response where
  \<comment> \<open>what \<open>query\<close> answers from \<open>reply0\<close>, asked at time 5 and answered at time 7\<close>
  "resp0 = \<lparr> answer = py ''fined'',
             sources = [\<lparr> filename = py ''A.txt'', snippet = py ''hello'', score = 1.0,
                           src_index = 0 \<rparr>],
             confidence = float_lit grid 0.85,
             latency = fsub grid 7 5,
             cost_estimate = estimate_cost grid Map.empty question0 (py ''fined''),
             engine_name = py ''Gemini File Search'' \<rparr>"


section \<open>Cost estimate: formula and monotonicity\<close>

text \<open>
  Claim C5. For every input text, output text and pricing configuration, the cost
  estimate is \<open>(len(input) * 1.5 / 1,000,000) * input_price + (len(output) * 1.5 /
  1,000,000) * output_price\<close>, with the configured per-million-token prices or their
  defaults \<open>0.075\<close> and \<open>0.30\<close>: evaluated in floating point it is that expression
  with each operation rounded, and in exact arithmetic it is the formula itself.
\<close>

theorem estimate_cost_formula:
  "estimate_cost rnd prices input_text output_text =
     fadd rnd
       (fmul rnd (fdiv rnd (fmul rnd (float_of_len rnd (length input_text)) 1.5) 1000000)
          (configured_price prices (py ''input_price'') (float_lit rnd 0.075)))
       (fmul rnd (fdiv rnd (fmul rnd (float_of_len rnd (length output_text)) 1.5) 1000000)
          (configured_price prices (py ''output_price'') (float_lit rnd 0.30)))
   \<and> estimate_cost (\<lambda>x. x) prices input_text output_text =
     spec_cost (real (length input_text)) (real (length output_text))
       (configured_price prices (py ''input_price'') 0.075)
       (configured_price prices (py ''output_price'') 0.30)"
  by (simp add: estimate_cost_def configured_price_def spec_cost_def Let_def
        fadd_def fmul_def fdiv_def float_of_len_def float_lit_def split: option.split)

lemma estimate_cost_unfold:
  "estimate_cost rnd prices input_text output_text =
     fadd rnd
       (fmul rnd (fdiv rnd (fmul rnd (float_of_len rnd (length input_text)) 1.5) 1000000)
          (configured_price prices (py ''input_price'') (float_lit rnd 0.075)))
       (fmul rnd (fdiv rnd (fmul rnd (float_of_len rnd (length output_text)) 1.5) 1000000)
          (configured_price prices (py ''output_price'') (float_lit rnd 0.30)))"
  by (simp add: estimate_cost_def configured_price_def Let_def split: option.split)

lemma rnd_nonneg: "mono rnd \<Longrightarrow> rnd 0 = 0 \<Longrightarrow> 0 \<le> x \<Longrightarrow> 0 \<le> rnd x"
  by (metis monoD)

lemma fmul_mono: "mono rnd \<Longrightarrow> a \<le> b \<Longrightarrow> 0 \<le> c \<Longrightarrow> fmul rnd a c \<le> fmul rnd b c"
  unfolding fmul_def by (rule monoD, assumption, rule mult_right_mono)

lemma fdiv_mono: "mono rnd \<Longrightarrow> a \<le> b \<Longrightarrow> 0 \<le> c \<Longrightarrow> fdiv rnd a c \<le> fdiv rnd b c"
  unfolding fdiv_def by (rule monoD, assumption, rule divide_right_mono)

lemma fadd_mono: "mono rnd \<Longrightarrow> a \<le> b \<Longrightarrow> c \<le> d \<Longrightarrow> fadd rnd a c \<le> fadd rnd b d"
  unfolding fadd_def by (rule monoD, assumption, rule add_mono)

lemma float_of_len_mono: "mono rnd \<Longrightarrow> n \<le> m \<Longrightarrow> float_of_len rnd n \<le> float_of_len rnd m"
  unfolding float_of_len_def by (rule monoD, assumption, simp)

lemma tokens_mono:
  assumes "mono rnd" "n \<le> m"
  shows "fdiv rnd (fmul rnd (float_of_len rnd n) 1.5) 1000000
       \<le> fdiv rnd (fmul rnd (float_of_len rnd m) 1.5) 1000000"
  by (intro fdiv_mono fmul_mono float_of_len_mono assms) simp_all

text \<open>
  Rounding to nearest is monotone, whatever the format and the way ties are broken, and
  leaves the values of the format alone.
\<close>

lemma rounds_to_nearest_mono:
  assumes "rounds_to_nearest F rnd"
  shows "mono rnd"
proof (rule monoI)
  fix x y :: real
  assume xy: "x \<le> y"
  show "rnd x \<le> rnd y"
  proof (rule ccontr)
    assume "\<not> rnd x \<le> rnd y"
    then have lt: "rnd y < rnd x" by simp
    have fx: "rnd x \<in> F" and fy: "rnd y \<in> F"
      using assms by (simp_all add: rounds_to_nearest_def)
    have a: "\<bar>x - rnd x\<bar> \<le> \<bar>x - rnd y\<bar>"
      using assms fy by (simp add: rounds_to_nearest_def)
    have b: "\<bar>y - rnd y\<bar> \<le> \<bar>y - rnd x\<bar>"
      using assms fx by (simp add: rounds_to_nearest_def)
    from a lt have xm: "rnd x + rnd y \<le> 2 * x" by (simp add: abs_le_iff) linarith
    from b lt have ym: "2 * y \<le> rnd x + rnd y" by (simp add: abs_le_iff) linarith
    from xm ym xy have "x = y" by linarith
    with lt show False by simp
  qed
qed

lemma rounds_to_nearest_fixes:
  assumes "rounds_to_nearest F rnd" "v \<in> F"
  shows "rnd v = v"
proof -
  from assms have "\<forall>f\<in>F. \<bar>v - rnd v\<bar> \<le> \<bar>v - f\<bar>"
    unfolding rounds_to_nearest_def by blast
  with assms(2) have "\<bar>v - rnd v\<bar> \<le> \<bar>v - v\<bar>" by blast
  then show ?thesis by simp
qed

lemma grid_nearest: "rounds_to_nearest (range (\<lambda>k. real_of_int k / 1024)) grid"
proof -
  have "\<bar>x - grid x\<bar> \<le> \<bar>x - real_of_int k / 1024\<bar>" for x k
  proof -
    have "\<bar>x * 1024 - real_of_int (round (x * 1024))\<bar> \<le> \<bar>x * 1024 - real_of_int k\<bar>"
      by (rule round_diff_minimal)
    then have "\<bar>(x - grid x) * 1024\<bar> \<le> \<bar>(x - real_of_int k / 1024) * 1024\<bar>"
      by (simp add: grid_def algebra_simps)
    then show ?thesis by (simp add: abs_mult)
  qed
  then show ?thesis by (auto simp: rounds_to_nearest_def grid_def)
qed

lemma mono_grid: "mono grid"
  by (rule rounds_to_nearest_mono [OF grid_nearest])

text \<open>
  Claim C6. For a fixed pricing configuration with non-negative input and output
  prices, the cost estimate does not decrease when the input text or the output text
  gets longer. The rounding of the float format is monotone and leaves zero alone, as
  every rounding to nearest does.
\<close>

theorem estimate_cost_mono:
  assumes rnd: "mono rnd" "rnd 0 = 0"
    and ip: "\<forall>p. prices (py ''input_price'') = Some p \<longrightarrow> 0 \<le> p"
    and op: "\<forall>p. prices (py ''output_price'') = Some p \<longrightarrow> 0 \<le> p"
    and len: "length input_text \<le> length input_text'"
             "length output_text \<le> length output_text'"
  shows "estimate_cost rnd prices input_text output_text
       \<le> estimate_cost rnd prices input_text' output_text'"
proof -
  let ?ip = "configured_price prices (py ''input_price'') (float_lit rnd 0.075)"
  let ?op = "configured_price prices (py ''output_price'') (float_lit rnd 0.30)"
  let ?t = "\<lambda>n. fdiv rnd (fmul rnd (float_of_len rnd n) 1.5) 1000000"
  have ip0: "0 \<le> ?ip"
    using ip rnd_nonneg [OF rnd, of "0.075"]
    by (auto simp: configured_price_def float_lit_def split: option.splits)
  have op0: "0 \<le> ?op"
    using op rnd_nonneg [OF rnd, of "0.30"]
    by (auto simp: configured_price_def float_lit_def split: option.splits)
  have a: "fmul rnd (?t (length input_text)) ?ip \<le> fmul rnd (?t (length input_text')) ?ip"
    by (rule fmul_mono [OF rnd(1) tokens_mono [OF rnd(1) len(1)] ip0])
  have b: "fmul rnd (?t (length output_text)) ?op \<le> fmul rnd (?t (length output_text')) ?op"
    by (rule fmul_mono [OF rnd(1) tokens_mono [OF rnd(1) len(2)] op0])
  have "fadd rnd (fmul rnd (?t (length input_text)) ?ip) (fmul rnd (?t (length output_text)) ?op)
      \<le> fadd rnd (fmul rnd (?t (length input_text')) ?ip) (fmul rnd (?t (length output_text')) ?op)"
    by (rule fadd_mono [OF rnd(1) a b])
  then show ?thesis by (simp only: estimate_cost_unfold)
qed

theorem estimate_cost_mono_witness:
  "mono grid \<and> grid 0 = 0
   \<and> [py ''input_price'' \<mapsto> (0.1::real)] (py ''input_price'') = Some 0.1
   \<and> [py ''input_price'' \<mapsto> (0.1::real)] (py ''output_price'') = None
   \<and> length (py ''fine'') \<le> length (py ''what fine'')
   \<and> length (py ''none'') \<le> length (py ''no fine'')
   \<and> estimate_cost grid [py ''input_price'' \<mapsto> (0.1::real)] (py ''fine'') (py ''none'')
       \<le> estimate_cost grid [py ''input_price'' \<mapsto> (0.1::real)] (py ''what fine'') (py ''no fine'')"
proof -
  have g0: "grid 0 = 0" by (simp add: grid_def)
  have h1: "\<forall>p. [py ''input_price'' \<mapsto> (0.1::real)] (py ''input_price'') = Some p \<longrightarrow> 0 \<le> p"
    by simp
  have h2: "\<forall>p. [py ''input_price'' \<mapsto> (0.1::real)] (py ''output_price'') = Some p \<longrightarrow> 0 \<le> p"
    by (simp add: py_def)
  have l1: "length (py ''fine'') \<le> length (py ''what fine'')" by (simp add: py_def)
  have l2: "length (py ''none'') \<le> length (py ''no fine'')" by (simp add: py_def)
  have p1: "[py ''input_price'' \<mapsto> (0.1::real)] (py ''input_price'') = Some 0.1"
    by simp
  have p2: "[py ''input_price'' \<mapsto> (0.1::real)] (py ''output_price'') = None"
    by (simp add: py_def)
  note c = estimate_cost_mono [OF mono_grid g0 h1 h2 l1 l2]
  show ?thesis by (intro conjI mono_grid g0 p1 p2 l1 l2 c)
qed

section \<open>Citation extraction follows the chunks\<close>

subsection \<open>Splitting a URI\<close>

lemma split_on_not_Nil: "split_on sep s \<noteq> []"
  by (induction s) (auto split: list.splits)

lemma split_on_single: "(tl (split_on sep s) = []) = (sep \<notin> set s)"
  by (induction s) (auto simp: split_on_not_Nil split: list.splits)

lemma last_split_on: "last (split_on sep s) = rev (takeWhile (\<lambda>c. c \<noteq> sep) (rev s))"
proof (induction s)
  case Nil
  show ?case by simp
next
  case (Cons c cs)
  show ?case
  proof (cases "c = sep")
    case True
    then show ?thesis
      using Cons.IH by (simp add: split_on_not_Nil takeWhile_append)
  next
    case False
    obtain seg segs where sp: "split_on sep cs = seg # segs"
      using split_on_not_Nil [of sep cs] by (cases "split_on sep cs") auto
    show ?thesis
    proof (cases "segs = []")
      case True
      with sp have notin: "sep \<notin> set cs" using split_on_single [of sep cs] by simp
      then have all: "takeWhile (\<lambda>c. c \<noteq> sep) (rev cs) = rev cs"
        by (auto simp: takeWhile_eq_all_conv)
      have "seg = rev (takeWhile (\<lambda>c. c \<noteq> sep) (rev cs))"
        using Cons.IH sp True by simp
      then have "seg = cs" by (simp only: all rev_rev_ident)
      then show ?thesis using False sp True notin
        by (simp add: takeWhile_append)
    next
      case nonempty: False
      with sp have "sep \<in> set cs" using split_on_single [of sep cs] by auto
      then show ?thesis using False sp nonempty Cons.IH
        by (auto simp: takeWhile_append)
    qed
  qed
qed

subsection \<open>The loop over the chunks\<close>

lemma context_attr_present:
  "context_attr context field =
     (case context of
        None \<Rightarrow> None
      | Some c \<Rightarrow> if present (field c) then Some (str_of (field c)) else None)"
  by (auto simp: context_attr_def nonempty_str_def present_def str_of_def
      split: option.splits attr.splits)

lemma make_source_citation:
  "chunk_retrieved_context chunk = Attr context \<Longrightarrow>
     make_source i chunk context =
       (case chunk_score chunk of
          Attr (Raises err) \<Rightarrow> Inl err
        | _ \<Rightarrow> Inr (citation (i, chunk)))"
  by (cases "context")
     (simp_all add: make_source_def citation_def context_attr_present payload_def
        citation_filename_def citation_snippet_def citation_score_def no_context_def
        present_def str_of_def last_split_on last_segment_def Let_def py_float_def
        split: attr.splits score_value.splits)

lemma make_source_converts:
  "chunk_retrieved_context chunk = Attr context \<Longrightarrow> score_converts chunk \<Longrightarrow>
     make_source i chunk context = Inr (citation (i, chunk))"
  by (auto simp: make_source_citation score_converts_def split: attr.splits score_value.splits)

lemma make_source_raises:
  "chunk_retrieved_context chunk = Attr context \<Longrightarrow> \<not> score_converts chunk \<Longrightarrow>
     \<exists>err. make_source i chunk context = Inl err"
  by (auto simp: make_source_citation score_converts_def split: attr.splits score_value.splits)

text \<open>
  The loop in general: it gathers the citations of the chunks before the first one
  whose score \<open>float\<close> rejects.
\<close>

lemma chunk_loop_prefix:
  "fst (chunk_loop i chunks srcs) =
     srcs @ map citation
       (filter (\<lambda>ic. has_context_attribute (snd ic))
          (takeWhile (\<lambda>ic. has_context_attribute (snd ic) \<longrightarrow> score_converts (snd ic))
             (enumerate i chunks)))"
proof (induction chunks arbitrary: i srcs)
  case Nil
  show ?case by simp
next
  case (Cons chunk rest)
  show ?case
  proof (cases "chunk_retrieved_context chunk")
    case Absent
    then show ?thesis by (simp add: Cons.IH has_context_attribute_def)
  next
    case (Attr ctx)
    show ?thesis
    proof (cases "score_converts chunk")
      case True
      then show ?thesis
        using Attr by (simp add: Cons.IH has_context_attribute_def make_source_converts)
    next
      case False
      with Attr obtain err where "make_source i chunk ctx = Inl err"
        using make_source_raises by blast
      with Attr False show ?thesis by (simp add: has_context_attribute_def)
    qed
  qed
qed

lemma chunk_loop_citations:
  "list_all score_converts (filter has_context_attribute chunks) \<Longrightarrow>
     chunk_loop i chunks srcs =
       (srcs @ map citation (filter (\<lambda>ic. has_context_attribute (snd ic)) (enumerate i chunks)),
        None)"
proof (induction chunks arbitrary: i srcs)
  case Nil
  show ?case by simp
next
  case (Cons chunk rest)
  show ?case
  proof (cases "chunk_retrieved_context chunk")
    case Absent
    then show ?thesis using Cons by (simp add: has_context_attribute_def)
  next
    case (Attr ctx)
    then show ?thesis
      using Cons by (simp add: has_context_attribute_def make_source_converts)
  qed
qed

lemma extract_try_citations: "scores_convert r \<Longrightarrow> extract_try r = (citations r, None) \<or>
    (extract_try r = ([], Some TypeError) \<and> citations r = [])"
  by (auto simp: extract_try_def citations_def response_chunks_def chunk_loop_citations
      scores_convert_def split: attr.splits option.splits list.splits)

lemma reply_of_chunks: "response_chunks (reply_of chunks) = chunks"
  by (simp add: response_chunks_def reply_of_def)

lemma extract_reply_of:
  "chunks \<noteq> [] \<Longrightarrow> fst (extract_sources (reply_of chunks)) = fst (chunk_loop 0 chunks [])"
  by (cases "chunk_loop 0 chunks []") (simp add: extract_sources_def extract_try_def reply_of_def)

text \<open>
  Claim C3, as the code has it. For every reply in which no score is one that
  \<open>float\<close> rejects, citation extraction turns each grounding chunk that has the
  attribute \<open>retrieved_context\<close>, whether it carries a payload or holds \<open>None\<close>, into
  exactly one citation, in the order of the chunks: its file name is the context's
  title if present, else the last \<open>/\<close>-separated segment of its URI if present, else
  the placeholder; its snippet is the first 500 characters of the context's text,
  empty when there is none; its score is the chunk's score if it has one, else
  \<open>1.0\<close>. A chunk whose attribute holds \<open>None\<close> has no title, URI or text.
\<close>

theorem extract_sources_citations:
  "scores_convert r \<Longrightarrow> fst (extract_sources r) = citations r"
  using extract_try_citations [of r]
  by (auto simp: extract_sources_def)

theorem extract_sources_citations_witness:
  "scores_convert (reply_of [chunk_none, chunk0])
   \<and> fst (extract_sources (reply_of [chunk_none, chunk0])) =
       [\<lparr> filename = unknown_file, snippet = [], score = 1.0, src_index = 0 \<rparr>,
        \<lparr> filename = py ''A.txt'', snippet = py ''hello'', score = 1.0, src_index = 1 \<rparr>]"
proof -
  have s: "scores_convert (reply_of [chunk_none, chunk0])"
    by (simp add: scores_convert_def reply_of_chunks chunk_none_def chunk0_def
        score_converts_def has_context_attribute_def)
  have c: "citations (reply_of [chunk_none, chunk0]) =
       [\<lparr> filename = unknown_file, snippet = [], score = 1.0, src_index = 0 \<rparr>,
        \<lparr> filename = py ''A.txt'', snippet = py ''hello'', score = 1.0, src_index = 1 \<rparr>]"
    by (simp add: citations_def reply_of_chunks chunk_none_def chunk0_def citation_def
        has_context_attribute_def payload_def no_context_def citation_filename_def
        citation_snippet_def citation_score_def present_def str_of_def enumerate_eq_zip
        upt_rec py_def)
  show ?thesis using extract_sources_citations [OF s] s c by simp
qed

text \<open>
  Claim C3 as stated fails. A chunk whose \<open>retrieved_context\<close> holds \<open>None\<close> carries no
  payload and is cited all the same: two citations for one chunk with a payload. And
  a score that holds \<open>None\<close> ends the extraction: no citation for two chunks with a
  payload.
\<close>

theorem extract_sources_counterexample:
  "length (filter carries_payload (response_chunks (reply_of [chunk_none, chunk0]))) = 1
   \<and> length (fst (extract_sources (reply_of [chunk_none, chunk0]))) = 2
   \<and> fst (extract_sources (reply_of [chunk_none, chunk0]))
       \<noteq> claimed_citations (reply_of [chunk_none, chunk0])
   \<and> length (filter carries_payload (response_chunks (reply_of [chunk_unscored, chunk0]))) = 2
   \<and> fst (extract_sources (reply_of [chunk_unscored, chunk0])) = []
   \<and> fst (extract_sources (reply_of [chunk_unscored, chunk0]))
       \<noteq> claimed_citations (reply_of [chunk_unscored, chunk0])"
proof -
  have p1: "length (filter carries_payload (response_chunks (reply_of [chunk_none, chunk0]))) = 1"
    by (simp add: reply_of_chunks carries_payload_def chunk_none_def chunk0_def)
  have e1: "length (fst (extract_sources (reply_of [chunk_none, chunk0]))) = 2"
    by (simp add: extract_reply_of chunk_none_def chunk0_def make_source_def
        context_attr_def nonempty_str_def py_def)
  have c1: "length (claimed_citations (reply_of [chunk_none, chunk0])) = 1"
    by (simp add: claimed_citations_def reply_of_chunks carries_payload_def chunk_none_def
        chunk0_def enumerate_eq_zip upt_rec)
  have p2: "length (filter carries_payload (response_chunks (reply_of [chunk_unscored, chunk0]))) = 2"
    by (simp add: reply_of_chunks carries_payload_def chunk_unscored_def chunk0_def)
  have e2: "fst (extract_sources (reply_of [chunk_unscored, chunk0])) = []"
    by (simp add: extract_reply_of chunk_unscored_def chunk0_def make_source_def
        context_attr_def nonempty_str_def py_float_def py_def)
  have c2: "length (claimed_citations (reply_of [chunk_unscored, chunk0])) = 2"
    by (simp add: claimed_citations_def reply_of_chunks carries_payload_def chunk_unscored_def
        chunk0_def enumerate_eq_zip upt_rec)
  have n1: "fst (extract_sources (reply_of [chunk_none, chunk0]))
       \<noteq> claimed_citations (reply_of [chunk_none, chunk0])"
    using e1 c1 by auto
  have n2: "fst (extract_sources (reply_of [chunk_unscored, chunk0]))
       \<noteq> claimed_citations (reply_of [chunk_unscored, chunk0])"
    using e2 c2 by auto
  show ?thesis by (intro conjI p1 e1 n1 p2 e2 n2)
qed

lemma spec_example:
  "fst (extract_sources reply0) =
     [\<lparr> filename = py ''A.txt'', snippet = py ''hello'', score = 1.0, src_index = 0 \<rparr>]"
  by (simp add: extract_sources_def extract_try_def reply0_def chunk0_def make_source_def
      context_attr_def nonempty_str_def py_def)

section \<open>The state machine of initialization\<close>

lemma log_add_simps [simp]:
  "disk (log_add w ev) = disk w" "calls (log_add w ev) = calls w"
  "logs (log_add w ev) = logs w @ [ev]"
  by (simp_all add: log_add_def)

lemma call_add_simps [simp]:
  "disk (call_add w c) = disk w" "calls (call_add w c) = calls w @ [c]"
  "logs (call_add w c) = logs w"
  by (simp_all add: call_add_def)

lemma py_eq: "(py a = py b) = (a = b)"
  unfolding py_def by (simp add: inj_map_eq_map inj_on_def)

lemma init_engine_fresh:
  "init_engine getenv cfg = Inr eng \<Longrightarrow> \<not> initialized eng \<and> store_resource_name eng = JNull"
  by (auto simp: init_engine_def Let_def split: if_splits)

lemma init_engine0: "init_engine getenv0 cfg0 = Inr eng0"
  by (simp add: init_engine_def getenv0_def cfg0_def eng0_def Let_def py_def)

lemma build_index_engine:
  "fst (snd (build_index e clk entries eng w)) =
     (case create_store e of
        Inl err \<Rightarrow> eng
      | Inr name \<Rightarrow>
          if writable e then eng\<lparr>store_resource_name := name, initialized := True\<rparr>
          else eng\<lparr>store_resource_name := name\<rparr>)"
  by (simp add: build_index_def Let_def save_store_info_def split: sum.split prod.split)

lemma build_index_outcome:
  "(fst (build_index e clk entries eng w) = Inr ())
     = ((\<exists>name. create_store e = Inr name) \<and> writable e)"
  by (auto simp: build_index_def Let_def save_store_info_def split: sum.split prod.split)

lemma build_index_initialized:
  "initialized (fst (snd (build_index e clk entries eng w)))
     = (initialized eng \<or> fst (build_index e clk entries eng w) = Inr ())"
  unfolding build_index_engine build_index_outcome by (auto split: sum.split)

lemma load_corpus_info_initialized:
  "initialized (fst (snd (load_corpus_info eng w)))
     = (initialized eng \<or> fst (load_corpus_info eng w) = Inr True)"
  by (auto simp: load_corpus_info_def Let_def split: pointer_file.split json.split)

lemma step_proj:
  "step (Build e clk entries) s = snd (build_index e clk entries (fst s) (snd s))"
  "step Load s = snd (load_corpus_info (fst s) (snd s))"
  "step (Rewrite f) s = (fst s, (snd s)\<lparr>disk := f\<rparr>)"
  by (cases s; simp)+

lemma step_initialized:
  "initialized (fst (step a s)) = (initialized (fst s) \<or> succeeded a s)"
  by (cases a; cases s)
     (simp_all add: build_index_initialized load_corpus_info_initialized)

text \<open>The flag is set exactly when some build has completed or some load has returned true.\<close>

lemma run_initialized:
  "initialized (fst (run ops s)) = (initialized (fst s) \<or> ever_succeeded ops s)"
  by (induction ops arbitrary: s) (auto simp: step_initialized)

text \<open>
  Claim C2. In every adapter state in which no \<open>build_index\<close> has succeeded and no
  collection pointer has been loaded, \<open>query\<close> raises the "not initialized" error at
  once and makes no call to the provider: the world, with its list of provider calls,
  is as it was.
\<close>

theorem query_uninitialized:
  assumes "init_engine getenv cfg = Inr eng" and "\<not> ever_succeeded ops (eng, w)"
  shows "query rnd e start_time end_time question (fst (run ops (eng, w))) (snd (run ops (eng, w)))
           = (Inl (RuntimeError NotInitialized), fst (run ops (eng, w)), snd (run ops (eng, w)))
       \<and> calls (snd (snd (query rnd e start_time end_time question
                        (fst (run ops (eng, w))) (snd (run ops (eng, w))))))
           = calls (snd (run ops (eng, w)))"
proof -
  have "\<not> initialized (fst (run ops (eng, w)))"
    using assms init_engine_fresh [of getenv cfg eng] by (simp add: run_initialized)
  then show ?thesis by (simp add: query_def)
qed

theorem query_uninitialized_witness:
  "init_engine getenv0 cfg0 = Inr eng0
   \<and> \<not> ever_succeeded [Load, Build env_down clk0 dir0, Load] (eng0, world0)
   \<and> fst (query grid env0 5 7 question0
        (fst (run [Load, Build env_down clk0 dir0, Load] (eng0, world0)))
        (snd (run [Load, Build env_down clk0 dir0, Load] (eng0, world0))))
       = Inl (RuntimeError NotInitialized)
   \<and> calls (snd (snd (query grid env0 5 7 question0
        (fst (run [Load, Build env_down clk0 dir0, Load] (eng0, world0)))
        (snd (run [Load, Build env_down clk0 dir0, Load] (eng0, world0))))))
       = [CallCreateStore]"
proof -
  have n: "\<not> ever_succeeded [Load, Build env_down clk0 dir0, Load] (eng0, world0)"
    by (simp add: load_corpus_info_def build_index_def world0_def env_down_def env0_def
        call_add_def log_add_def)
  have c: "calls (snd (run [Load, Build env_down clk0 dir0, Load] (eng0, world0)))
             = [CallCreateStore]"
    by (simp add: load_corpus_info_def build_index_def world0_def env_down_def env0_def
        call_add_def log_add_def)
  show ?thesis
    using query_uninitialized [OF init_engine0 n, where rnd = grid and e = env0
        and start_time = 5 and end_time = 7 and question = question0] init_engine0 n c
    by simp
qed

section \<open>What a query returns\<close>

lemma query_ready:
  assumes "initialized eng" "truthy (store_resource_name eng)"
    and "generate_content e (make_request rnd eng question) = Inr r"
  shows "fst (query rnd e start_time end_time question eng w) =
     (case answer_of r of
        None \<Rightarrow> Inl TypeError
      | Some ans \<Rightarrow>
          Inr \<lparr> answer = ans,
                sources = fst (extract_sources r),
                confidence = float_lit rnd 0.85,
                latency = fsub rnd end_time start_time,
                cost_estimate = estimate_cost rnd (pricing eng) question ans,
                engine_name = py ''Gemini File Search'' \<rparr>)"
  using assms
  by (cases "extract_sources r") (simp add: query_def Let_def split: option.split)

lemma query_Inr:
  assumes "fst (query rnd e start_time end_time question eng w) = Inr resp"
  shows "confidence resp = float_lit rnd 0.85 \<and> engine_name resp = py ''Gemini File Search''"
proof -
  from assms have i: "initialized eng" and t: "truthy (store_resource_name eng)"
    by (auto simp: query_def split: if_splits)
  from assms i t obtain r where r: "generate_content e (make_request rnd eng question) = Inr r"
    by (cases "generate_content e (make_request rnd eng question)")
       (auto simp: query_def Let_def)
  from assms show ?thesis
    unfolding query_ready [OF i t r] by (auto split: option.splits)
qed

lemma eng1_ready: "initialized eng1" "truthy (store_resource_name eng1)"
  by (simp_all add: eng1_def store0_def py_def)

lemma query0: "fst (query grid env0 5 7 question0 eng1 world0) = Inr resp0"
proof -
  have g: "generate_content env0 (make_request grid eng1 question0) = Inr reply0"
    by (simp add: env0_def)
  have a: "answer_of reply0 = Some (py ''fined'')"
    by (simp add: answer_of_def reply0_def)
  have p: "pricing eng1 = Map.empty" by (simp add: eng1_def eng0_def)
  show ?thesis
    unfolding query_ready [OF eng1_ready g] a resp0_def spec_example p by simp
qed

text \<open>
  Claim C9. Whatever the question and the provider's reply, a Query Response returned
  by \<open>query\<close> has the constant confidence \<open>0.85\<close> and the constant engine name
  \<open>Gemini File Search\<close>.
\<close>

theorem query_constants:
  "fst (query rnd e start_time end_time question eng w) = Inr resp \<Longrightarrow>
     confidence resp = float_lit rnd 0.85 \<and> engine_name resp = py ''Gemini File Search''"
  by (rule query_Inr)

theorem query_constants_witness:
  "fst (query grid env0 5 7 question0 eng1 world0) = Inr resp0
   \<and> confidence resp0 = float_lit grid 0.85
   \<and> engine_name resp0 = py ''Gemini File Search''"
  using query_constants [OF query0] query0 by simp






section \<open>The pointer file: reading it, and writing then reading\<close>

lemma info_data_get:
  "info_data clk name fs = JObj d \<Longrightarrow>
     dict_get d (py ''store_resource_name'') x = name
     \<and> dict_get d (py ''created_at'') y = JFloat (clk_time clk)
     \<and> dict_get d (py ''created_time'') z = JStr (clk_stamp clk)
     \<and> dict_get d (py ''total_files'') u = JInt (int (length fs))
     \<and> map_of d (py ''files'') = Some (JList (map file_record_json fs))"
  by (auto simp: info_data_def dict_get_def py_eq)

lemma info_data_obj: "\<exists>d. info_data clk name fs = JObj d"
  by (simp add: info_data_def)

lemma save_disk:
  "save_store_info e clk name fs w = (Inr (), w1) \<Longrightarrow> disk w1 = JsonFile (info_data clk name fs)"
  by (auto simp: save_store_info_def split: if_splits)

lemma save0: "save_store_info env0 clk0 store0 files0 world0 = (Inr (), world_saved)"
  by (simp add: save_store_info_def env0_def world_saved_def world0_def files0_def log_add_def)

text \<open>
  Where \<open>Path.exists()\<close> answers, \<open>get_index_info\<close> does not raise: it returns the
  shape with \<open>exists == False\<close> when the file is missing, and again when reading or
  parsing the file, or the fields read from it, raise.
\<close>

lemma get_index_info_returns:
  assumes "\<forall>err. disk w \<noteq> NoAccess err"
  shows "\<exists>info. fst (get_index_info rnd current_time w) = Inr info
     \<and> (case disk w of
          NoFile \<Rightarrow> \<not> info_exists info \<and> info_message info = Some IndexMissing
        | NoAccess err \<Rightarrow> False
        | BadFile err \<Rightarrow> \<not> info_exists info \<and> info_message info = Some (ReadFailed err)
        | JsonFile doc \<Rightarrow>
            (case index_info_try rnd current_time doc of
               Inl err \<Rightarrow> \<not> info_exists info \<and> info_message info = Some (ReadFailed err)
             | Inr found \<Rightarrow> info = found \<and> info_exists info))"
  using assms
  by (auto simp: get_index_info_def not_found_def index_info_try_def
      split: pointer_file.splits sum.splits json.splits)

text \<open>
  Claim C7. For every state of the file system \<open>get_index_info\<close> never raises, and
  returns the shape with \<open>exists == False\<close> when the pointer file is missing or
  cannot be read. The code misses one case: \<open>info_file.exists()\<close> stands before the
  \<open>try\<close>, and when the directory of the pointer file may not be searched, the
  \<open>PermissionError\<close> of \<open>exists()\<close> leaves \<open>get_index_info\<close>.
\<close>

theorem get_index_info_raises:
  "disk world_denied = NoAccess PermissionError
   \<and> fst (get_index_info grid 1700003600 world_denied) = Inl PermissionError"
  by (simp add: get_index_info_def world_denied_def world0_def)

text \<open>
  Claim C8. For every store resource name and every list of file records, once the
  pointer has been persisted, loading it back gives the store resource name that was
  written, and a \<open>total_files\<close> that is the number of file records written: in the
  engine and the log of \<open>load_corpus_info\<close>, and in the result of \<open>get_index_info\<close>.
\<close>

theorem pointer_round_trip:
  assumes "save_store_info e clk name uploaded_files w = (Inr (), w1)"
  shows "store_resource_name (fst (snd (load_corpus_info eng w1))) = name
       \<and> fst (load_corpus_info eng w1) = Inr (truthy name)
       \<and> (if truthy name
           then LogPointerLoaded (JInt (int (length uploaded_files))) (JStr (clk_stamp clk))
           else LogNameMissing) \<in> set (logs (snd (snd (load_corpus_info eng w1))))
       \<and> (\<exists>info. fst (get_index_info rnd current_time w1) = Inr info
             \<and> info_exists info
             \<and> info_store_resource_name info = Some name
             \<and> info_total_files info = Some (JInt (int (length uploaded_files))))"
proof -
  obtain d where d: "info_data clk name uploaded_files = JObj d"
    using info_data_obj by blast
  note g = info_data_get [OF d]
  have disk: "disk w1 = JsonFile (JObj d)"
    using save_disk [OF assms] d by simp
  have load: "store_resource_name (fst (snd (load_corpus_info eng w1))) = name
       \<and> fst (load_corpus_info eng w1) = Inr (truthy name)
       \<and> (if truthy name
           then LogPointerLoaded (JInt (int (length uploaded_files))) (JStr (clk_stamp clk))
           else LogNameMissing) \<in> set (logs (snd (snd (load_corpus_info eng w1))))"
    by (simp add: load_corpus_info_def disk g Let_def)
  have info: "\<exists>info. fst (get_index_info rnd current_time w1) = Inr info
             \<and> info_exists info
             \<and> info_store_resource_name info = Some name
             \<and> info_total_files info = Some (JInt (int (length uploaded_files)))"
    by (simp add: get_index_info_def disk index_info_try_def g float_minus_def)
  from load info show ?thesis by blast
qed

theorem pointer_round_trip_witness:
  "save_store_info env0 clk0 store0 files0 world0 = (Inr (), world_saved)
   \<and> store_resource_name (fst (snd (load_corpus_info eng0 world_saved))) = store0
   \<and> fst (load_corpus_info eng0 world_saved) = Inr True
   \<and> LogPointerLoaded (JInt 2) (JStr (clk_stamp clk0))
       \<in> set (logs (snd (snd (load_corpus_info eng0 world_saved))))
   \<and> (\<exists>info. fst (get_index_info grid 1700003600 world_saved) = Inr info
         \<and> info_exists info
         \<and> info_store_resource_name info = Some store0
         \<and> info_total_files info = Some (JInt 2))"
proof -
  have t: "truthy store0" by (simp add: store0_def py_def)
  have l: "int (length files0) = 2" by (simp add: files0_def)
  show ?thesis
    using pointer_round_trip [OF save0, where eng = eng0 and rnd = grid
        and current_time = 1700003600] save0 t l
    by simp
qed

section \<open>Ingestion: what the pointer records\<close>

lemma upload_loop_files:
  "fst (upload_loop e i ps acc w) = acc @ succeeded_upload e i ps"
  by (induction ps arbitrary: i acc w) (auto split: sum.splits)

lemma import_loop_count:
  "fst (import_loop e store i fs n w) = n + length (succeeded_import e store i fs)"
  by (induction fs arbitrary: i n w) (auto split: sum.splits)

lemma length_succeeded_upload: "length (succeeded_upload e i ps) \<le> length ps"
  by (induction ps arbitrary: i) (auto split: sum.splits intro: le_SucI)

lemma length_succeeded_import: "length (succeeded_import e store i fs) \<le> length fs"
  by (induction fs arbitrary: i) (auto split: sum.splits intro: le_SucI)

text \<open>What a run of \<open>build_index\<close> that completes has done.\<close>

lemma build_index_Inr:
  assumes "fst (build_index e clk entries eng w) = Inr ()"
  shows "\<exists>name w6.
           create_store e = Inr name \<and> writable e
         \<and> fst (snd (build_index e clk entries eng w)) =
             eng\<lparr>store_resource_name := name, initialized := True\<rparr>
         \<and> snd (snd (build_index e clk entries eng w)) =
             log_add (w6\<lparr>disk := JsonFile (info_data clk name
                                   (succeeded_upload e 1 (glob_txt entries)))\<rparr>)
               (LogStoreInfoSaved name (length (succeeded_upload e 1 (glob_txt entries))))
         \<and> LogImportedCount (length (succeeded_both e name (glob_txt entries)))
             \<in> set (logs w6)"
proof (cases "create_store e")
  case (Inl err)
  with assms show ?thesis by (simp add: build_index_def)
next
  case (Inr name)
  let ?w1 = "call_add w CallCreateStore"
  let ?txt = "glob_txt entries"
  obtain up w2 where up: "upload_loop e 1 ?txt [] ?w1 = (up, w2)"
    by (cases "upload_loop e 1 ?txt [] ?w1")
  have up_eq: "up = succeeded_upload e 1 ?txt"
    using upload_loop_files [of e 1 ?txt "[]" ?w1] up by simp
  let ?w3 = "log_add w2 (LogUploadedCount (length up))"
  obtain n w4 where im: "import_loop e name 1 up 0 ?w3 = (n, w4)"
    by (cases "import_loop e name 1 up 0 ?w3")
  have n_eq: "n = length (succeeded_both e name ?txt)"
    using import_loop_count [of e name 1 up 0 ?w3] im up_eq
    by (simp add: succeeded_both_def)
  let ?w6 = "log_add (log_add w4 (LogImportedCount n)) (LogBuildDone (length up) (length ?txt))"
  have wr: "writable e"
    using assms Inr up im
    by (auto simp: build_index_def Let_def save_store_info_def split: if_splits)
  have "fst (snd (build_index e clk entries eng w)) =
          eng\<lparr>store_resource_name := name, initialized := True\<rparr>
      \<and> snd (snd (build_index e clk entries eng w)) =
          log_add (?w6\<lparr>disk := JsonFile (info_data clk name up)\<rparr>)
            (LogStoreInfoSaved name (length up))"
    using Inr up im wr by (simp add: build_index_def Let_def save_store_info_def)
  moreover have "LogImportedCount (length (succeeded_both e name ?txt)) \<in> set (logs ?w6)"
    using n_eq by simp
  ultimately show ?thesis using Inr wr up_eq by blast
qed

lemma persisted_files_saved:
  "disk w = JsonFile (info_data clk name fs) \<Longrightarrow>
     persisted_files w = Some (map file_record_json fs)
     \<and> persisted w (py ''total_files'') = Some (JInt (int (length fs)))"
  by (simp add: persisted_files_def persisted_def info_data_def py_def)

lemma glob0: "glob_txt dir0 = [py ''a.txt'', py ''b.txt'']"
  by (simp add: glob_txt_def dir0_def py_def)

lemma build0: "fst (build_index env0 clk0 dir0 eng0 world0) = Inr ()"
  by (simp add: build_index_outcome env0_def)

lemma build0_name:
  "store_resource_name (fst (snd (build_index env0 clk0 dir0 eng0 world0))) = store0"
  by (simp add: build_index_engine env0_def)

lemma uploads0: "length (succeeded_upload env0 1 (glob_txt dir0)) = 2"
  by (simp add: glob0 env0_def)

lemma both0: "length (succeeded_both env0 store0 (glob_txt dir0)) = 1"
  by (simp add: glob0 env0_def succeeded_both_def)

text \<open>
  Claim C1, as the code has it. For every run of \<open>build_index\<close> that completes without
  raising, the number of entries in the \<open>files\<close> list of the persisted pointer never
  exceeds the number of matching source documents found in the directory, and equals
  the number of files that succeeded the upload step, which is also the persisted
  \<open>total_files\<close>. The number of files that succeeded the import step as well is at most
  that; it is logged and not persisted.
\<close>

theorem build_index_persists_uploads:
  assumes "fst (build_index e clk entries eng w) = Inr ()"
  shows "\<exists>files. persisted_files (snd (snd (build_index e clk entries eng w))) = Some files
       \<and> length files = length (succeeded_upload e 1 (glob_txt entries))
       \<and> length files \<le> length (glob_txt entries)
       \<and> persisted (snd (snd (build_index e clk entries eng w))) (py ''total_files'')
           = Some (JInt (int (length files)))
       \<and> length (succeeded_both e (store_resource_name (fst (snd (build_index e clk entries eng w))))
                   (glob_txt entries)) \<le> length files
       \<and> LogImportedCount
           (length (succeeded_both e (store_resource_name (fst (snd (build_index e clk entries eng w))))
                     (glob_txt entries)))
           \<in> set (logs (snd (snd (build_index e clk entries eng w))))"
proof -
  from build_index_Inr [OF assms] obtain name w6 where
    eng: "fst (snd (build_index e clk entries eng w)) =
            eng\<lparr>store_resource_name := name, initialized := True\<rparr>"
    and w: "snd (snd (build_index e clk entries eng w)) =
             log_add (w6\<lparr>disk := JsonFile (info_data clk name
                                   (succeeded_upload e 1 (glob_txt entries)))\<rparr>)
               (LogStoreInfoSaved name (length (succeeded_upload e 1 (glob_txt entries))))"
    and lg: "LogImportedCount (length (succeeded_both e name (glob_txt entries))) \<in> set (logs w6)"
    by blast
  let ?up = "succeeded_upload e 1 (glob_txt entries)"
  have d: "disk (snd (snd (build_index e clk entries eng w))) = JsonFile (info_data clk name ?up)"
    by (simp add: w)
  note p = persisted_files_saved [OF d]
  have nm: "store_resource_name (fst (snd (build_index e clk entries eng w))) = name"
    by (simp add: eng)
  have both: "length (succeeded_both e name (glob_txt entries)) \<le> length ?up"
    by (simp add: succeeded_both_def length_succeeded_import)
  have lg': "LogImportedCount (length (succeeded_both e name (glob_txt entries)))
           \<in> set (logs (snd (snd (build_index e clk entries eng w))))"
    using lg by (simp add: w)
  show ?thesis
    using p nm both lg' length_succeeded_upload [of e 1 "glob_txt entries"] by simp
qed

theorem build_index_persists_uploads_witness:
  "fst (build_index env0 clk0 dir0 eng0 world0) = Inr ()
   \<and> length (glob_txt dir0) = 2
   \<and> (\<exists>files. persisted_files (snd (snd (build_index env0 clk0 dir0 eng0 world0))) = Some files
        \<and> length files = 2)
   \<and> LogImportedCount 1 \<in> set (logs (snd (snd (build_index env0 clk0 dir0 eng0 world0))))"
  using build_index_persists_uploads [OF build0] build0 uploads0 both0 build0_name
  by (auto simp: glob0)

text \<open>
  Claim C1 as stated fails: with two documents uploaded and the second import refused,
  the run completes and the pointer lists two files, while one file succeeded both
  steps.
\<close>

theorem build_index_files_counterexample:
  "fst (build_index env0 clk0 dir0 eng0 world0) = Inr ()
   \<and> map_option length (persisted_files (snd (snd (build_index env0 clk0 dir0 eng0 world0))))
       = Some 2
   \<and> length (succeeded_both env0 store0 (glob_txt dir0)) = 1
   \<and> map_option length (persisted_files (snd (snd (build_index env0 clk0 dir0 eng0 world0))))
       \<noteq> Some (length (succeeded_both env0 store0 (glob_txt dir0)))"
proof -
  from build_index_Inr [OF build0] obtain name w6 where
    w: "snd (snd (build_index env0 clk0 dir0 eng0 world0)) =
             log_add (w6\<lparr>disk := JsonFile (info_data clk0 name
                                   (succeeded_upload env0 1 (glob_txt dir0)))\<rparr>)
               (LogStoreInfoSaved name (length (succeeded_upload env0 1 (glob_txt dir0))))"
    by blast
  have d: "disk (snd (snd (build_index env0 clk0 dir0 eng0 world0)))
         = JsonFile (info_data clk0 name (succeeded_upload env0 1 (glob_txt dir0)))"
    by (simp add: w)
  show ?thesis
    using persisted_files_saved [OF d] build0 uploads0 both0 by simp
qed

section \<open>The initialization invariant\<close>

lemma build_index_inv:
  assumes "adapter_inv eng" "\<forall>name. create_store e = Inr name \<longrightarrow> truthy name"
  shows "adapter_inv (fst (snd (build_index e clk entries eng w)))"
  using assms unfolding build_index_engine by (auto simp: adapter_inv_def split: sum.split)

lemma load_corpus_info_result:
  "(\<forall>err. disk w \<noteq> NoAccess err) \<longrightarrow>
     fst (load_corpus_info eng w) = Inr (truthy (pointer_name w))"
  "initialized (fst (snd (load_corpus_info eng w)))
     = (initialized eng \<or> truthy (pointer_name w))"
  "truthy (pointer_name w) \<longrightarrow>
     store_resource_name (fst (snd (load_corpus_info eng w))) = pointer_name w"
  by (auto simp: load_corpus_info_def pointer_name_def persisted_def dict_get_def Let_def
      split: pointer_file.split json.split option.split)

lemma load_corpus_info_inv:
  "\<not> initialized eng \<or> truthy (pointer_name w) \<Longrightarrow>
     adapter_inv (fst (snd (load_corpus_info eng w)))"
  using load_corpus_info_result(2,3) [where eng = eng and w = w]
  by (auto simp: adapter_inv_def)

lemma load_corpus_info_raises:
  "disk w = NoAccess err \<Longrightarrow> load_corpus_info eng w = (Inl err, eng, w)"
  by (simp add: load_corpus_info_def)

lemma pointer_name_unreadable:
  "disk w = NoFile \<or> (\<exists>err. disk w = BadFile err) \<Longrightarrow> pointer_name w = JNull"
  by (auto simp: pointer_name_def persisted_def)

lemma query_engine: "fst (snd (query rnd e start_time end_time question eng w)) = eng"
  by (simp add: query_def Let_def split: sum.split option.split prod.split)

lemma stale_name: "pointer_name world_stale = JNull"
  by (simp add: pointer_name_def persisted_def world_stale_def world0_def py_def)

text \<open>
  Claim C10, as the code has it. With the invariant "when the initialized flag is set,
  the store resource name is set and not empty": construction establishes it;
  \<open>query\<close> leaves the engine as it was; \<open>build_index\<close> preserves it when the provider
  names the store it creates; \<open>load_corpus_info\<close> establishes it on an adapter that is
  not initialized, and preserves it when the pointer file gives a name.
  Where \<open>Path.exists()\<close> answers, \<open>load_corpus_info\<close> returns false when the pointer
  file is missing, when reading or parsing it raises, or when it gives no
  \<open>store_resource_name\<close>; and whenever the pointer file gives no name it leaves the
  initialized flag as it was.
\<close>

theorem adapter_invariant:
  "(init_engine getenv cfg = Inr eng_new \<longrightarrow> adapter_inv eng_new)
   \<and> fst (snd (query rnd e start_time end_time question eng w)) = eng
   \<and> (adapter_inv eng \<and> (\<forall>name. create_store e = Inr name \<longrightarrow> truthy name) \<longrightarrow>
        adapter_inv (fst (snd (build_index e clk entries eng w))))
   \<and> (\<not> initialized eng \<or> truthy (pointer_name w') \<longrightarrow>
        adapter_inv (fst (snd (load_corpus_info eng w'))))
   \<and> ((\<forall>err. disk w' \<noteq> NoAccess err) \<longrightarrow>
        fst (load_corpus_info eng w') = Inr (truthy (pointer_name w')))
   \<and> (\<not> truthy (pointer_name w') \<longrightarrow>
        initialized (fst (snd (load_corpus_info eng w'))) = initialized eng)
   \<and> (disk w' = NoFile \<or> (\<exists>err. disk w' = BadFile err) \<longrightarrow> pointer_name w' = JNull)"
  using init_engine_fresh [of getenv cfg eng_new] build_index_inv [of eng e clk entries w]
    load_corpus_info_inv [of eng w'] load_corpus_info_result [where eng = eng and w = w']
    pointer_name_unreadable [of w'] query_engine [of rnd e start_time end_time question eng w]
  by (auto simp: adapter_inv_def)

theorem adapter_invariant_witness:
  "init_engine getenv0 cfg0 = Inr eng0
   \<and> adapter_inv eng0
   \<and> fst (snd (query grid env0 5 7 question0 eng0 world0)) = eng0
   \<and> adapter_inv (fst (snd (build_index env0 clk0 dir0 eng0 world0)))
   \<and> adapter_inv (fst (snd (load_corpus_info eng0 world_stale)))
   \<and> fst (load_corpus_info eng0 world_stale) = Inr False
   \<and> initialized (fst (snd (load_corpus_info eng0 world_stale))) = False
   \<and> disk world0 = NoFile
   \<and> pointer_name world0 = JNull"
proof -
  have c: "\<forall>name. create_store env0 = Inr name \<longrightarrow> truthy name"
    by (simp add: env0_def store0_def py_def)
  have u: "\<not> initialized eng0" by (simp add: eng0_def)
  have d: "disk world0 = NoFile" by (simp add: world0_def)
  have s: "\<forall>err. disk world_stale \<noteq> NoAccess err"
    by (simp add: world_stale_def)
  note a = adapter_invariant [where getenv = getenv0 and cfg = cfg0 and eng_new = eng0
      and eng = eng0 and e = env0 and clk = clk0 and entries = dir0 and w = world0
      and w' = world_stale and rnd = grid and start_time = 5 and end_time = 7
      and question = question0]
  note b = adapter_invariant [where getenv = getenv0 and cfg = cfg0 and eng_new = eng0
      and eng = eng0 and e = env0 and clk = clk0 and entries = dir0 and w = world0
      and w' = world0 and rnd = grid and start_time = 5 and end_time = 7
      and question = question0]
  show ?thesis using a b init_engine0 c u d s stale_name by simp
qed

text \<open>
  Claim C10 as stated fails. After a build that completed, with the pointer file then
  replaced by a document without \<open>store_resource_name\<close>, \<open>load_corpus_info\<close> clears
  the name and leaves the flag set; and a build against a provider that returns a
  store with an empty name sets the flag.
\<close>

theorem adapter_invariant_counterexample:
  "init_engine getenv0 cfg0 = Inr eng0
   \<and> adapter_inv (fst (run [Build env0 clk0 dir0] (eng0, world0)))
   \<and> \<not> adapter_inv
         (fst (run [Build env0 clk0 dir0, Rewrite (disk world_stale), Load] (eng0, world0)))
   \<and> \<not> adapter_inv (fst (run [Build env_noname clk0 dir0] (eng0, world0)))"
proof -
  have a: "adapter_inv (fst (run [Build env0 clk0 dir0] (eng0, world0)))"
    by (simp add: build_index_engine env0_def adapter_inv_def store0_def py_def)
  have l: "\<not> adapter_inv
         (fst (run [Build env0 clk0 dir0, Rewrite (disk world_stale), Load] (eng0, world0)))"
    by (simp add: step_proj build_index_engine env0_def load_corpus_info_def
        world_stale_def dict_get_def py_def Let_def adapter_inv_def)
  have b: "\<not> adapter_inv (fst (run [Build env_noname clk0 dir0] (eng0, world0)))"
    by (simp add: build_index_engine env_noname_def env0_def adapter_inv_def)
  show ?thesis using init_engine0 a l b by simp
qed

end
